theory Spec2Isabelle
  imports Complex_Main "HOL-Library.AList"
begin

section \<open>Data model of \<open>UploadMaterialsJob\<close>\<close>

text \<open>
  The job of \<^verbatim>\<open>cura/PrinterOutput/UploadMaterialsJob.py\<close> is an object whose methods are
  callbacks of an asynchronous HTTP client. The embedding passes the object's attributes
  explicitly as a record. Three effects of the methods are written into the same record:
  the signals emitted (in order), the HTTP requests handed to the request manager (in
  order), and the files on disk.

  Python floats are idealised as real numbers: the only arithmetic of the source is
  \<^verbatim>\<open>progress * 0.8\<close> and \<^verbatim>\<open>0.8 + k / n\<close>.
\<close>

text \<open>
  \<^verbatim>\<open>class Result(enum.IntEnum)\<close> has the two members \<^verbatim>\<open>SUCCCESS = 0\<close> and
  \<^verbatim>\<open>FAILED = 1\<close>, spelled as in the source.
\<close>

datatype Result = SUCCCESS | FAILED

datatype exn = AttributeError string | TypeError | FileNotFoundError

datatype UploadMaterialsError = UploadMaterialsError string

text \<open>
  The metadata of one container stack found by the registry; the job reads the two keys
  \<^verbatim>\<open>host_guid\<close> and \<^verbatim>\<open>um_cloud_cluster_id\<close>.
\<close>

record container_metadata =
  host_guid :: string
  um_cloud_cluster_id :: string

text \<open>
  A reply is represented by what \<^verbatim>\<open>HttpRequestManager.readJSON\<close> makes of it: nothing when
  the body is not JSON, otherwise the object's fields. A network error is its Qt code.
\<close>

type_synonym QNetworkReply = "(string \<rightharpoonup> string) option"

type_synonym NetworkError = nat

text \<open>
  The dictionary \<^verbatim>\<open>_printer_sync_status\<close>, in insertion order. A progress signal carries
  the dictionary itself; the embedding records its contents at the moment of the emission,
  which is what a listener called by the signal reads.
\<close>

type_synonym sync_status = "(string \<times> string) list"

datatype signal =
    UploadProgressChanged real sync_status
  | UploadCompleted "Result option" "UploadMaterialsError option"

text \<open>
  What a request is given as its callbacks. The two upload requests are given bound
  methods of the job. A confirmation request is given, for both callbacks, the object
  \<^verbatim>\<open>functools.partialmethod(self.onUploadConfirmed, printer_id)\<close>, written
  \<open>OnUploadConfirmed printer_id\<close> here.
\<close>

datatype callback =
    OnUploadRequestCompleted
  | OnUploadCompleted
  | OnUploadConfirmed string
  | OnError

datatype body =
    RequestMetadata nat string string string
  | FileData string

datatype request =
    Put string body callback callback
  | Get string callback callback

record UploadMaterialsJob =
  printer_metadata :: "container_metadata list"
  printer_sync_status :: sync_status
  archive_filename :: "string option"
  archive_remote_id :: "string option"
  job_result :: "Result option"
  job_error :: "UploadMaterialsError option"
  emitted :: "signal list"
  http :: "request list"
  files :: "string \<rightharpoonup> string"

text \<open>
  What the collaborators outside the source file supply: the root of the cloud API
  (\<^verbatim>\<open>UltimakerCloudConstants.CuraCloudAPIRoot\<close>), the result of the registry query, the
  name of the temporary file, and the behaviour of the archive producer.
\<close>

record env =
  CuraCloudAPIRoot :: string
  findContainerStacksMetadata :: "container_metadata list"
  NamedTemporaryFile :: string
  exportAll_data :: string
  exportAll_progress :: "real list"

text \<open>
  A method either returns, with the job as it left it, or raises, with the job as it was
  when the exception left the method.
\<close>

type_synonym outcome = "(exn \<times> UploadMaterialsJob) + UploadMaterialsJob"

section \<open>Primitives of the base class and the collaborators\<close>

text \<open>Attribute lookup on the enumeration class, by the name written in the source.\<close>

definition Result_member :: "string \<Rightarrow> exn + Result" where
  "Result_member name =
     (if name = ''SUCCCESS'' then Inr SUCCCESS
      else if name = ''FAILED'' then Inr FAILED
      else Inl (AttributeError name))"

text \<open>The translation catalogue, taken without a translation loaded.\<close>

definition i18nc :: "string \<Rightarrow> string \<Rightarrow> string" where
  "i18nc ctx text = text"

definition UPLOAD_REQUEST_URL :: "env \<Rightarrow> string" where
  "UPLOAD_REQUEST_URL e = CuraCloudAPIRoot e @ ''/connect/v1/materials/upload''"

definition UPLOAD_CONFIRM_URL :: "env \<Rightarrow> string \<Rightarrow> string \<Rightarrow> string" where
  "UPLOAD_CONFIRM_URL e cluster_id cluster_printer_id =
     CuraCloudAPIRoot e @ ''/connect/v1/clusters/'' @ cluster_id @ ''/printers/''
       @ cluster_printer_id @ ''/action/confirm_material_upload''"

definition readJSON :: "QNetworkReply \<Rightarrow> (string \<rightharpoonup> string) option" where
  "readJSON reply = reply"

definition setResult :: "Result \<Rightarrow> UploadMaterialsJob \<Rightarrow> UploadMaterialsJob" where
  "setResult r s = s\<lparr>job_result := Some r\<rparr>"

definition setError :: "UploadMaterialsError \<Rightarrow> UploadMaterialsJob \<Rightarrow> UploadMaterialsJob" where
  "setError e s = s\<lparr>job_error := Some e\<rparr>"

definition getResult :: "UploadMaterialsJob \<Rightarrow> Result option" where
  "getResult s = job_result s"

definition getError :: "UploadMaterialsJob \<Rightarrow> UploadMaterialsError option" where
  "getError s = job_error s"

definition emit :: "signal \<Rightarrow> UploadMaterialsJob \<Rightarrow> UploadMaterialsJob" where
  "emit sg s = s\<lparr>emitted := emitted s @ [sg]\<rparr>"

definition http_put ::
  "string \<Rightarrow> body \<Rightarrow> callback \<Rightarrow> callback \<Rightarrow> UploadMaterialsJob \<Rightarrow> UploadMaterialsJob" where
  "http_put url data cb error_cb s = s\<lparr>http := http s @ [Put url data cb error_cb]\<rparr>"

definition http_get ::
  "string \<Rightarrow> callback \<Rightarrow> callback \<Rightarrow> UploadMaterialsJob \<Rightarrow> UploadMaterialsJob" where
  "http_get url cb error_cb s = s\<lparr>http := http s @ [Get url cb error_cb]\<rparr>"

text \<open>\<^verbatim>\<open>self._printer_sync_status[printer_id] = status\<close>\<close>

definition set_status :: "string \<Rightarrow> string \<Rightarrow> UploadMaterialsJob \<Rightarrow> UploadMaterialsJob" where
  "set_status printer_id status s =
     s\<lparr>printer_sync_status := AList.update printer_id status (printer_sync_status s)\<rparr>"

section \<open>The methods of the job\<close>

text \<open>The attributes after \<^verbatim>\<open>__init__\<close>, with nothing emitted, requested or written.\<close>

definition init :: UploadMaterialsJob where
  "init = \<lparr>printer_metadata = [], printer_sync_status = [], archive_filename = None,
           archive_remote_id = None, job_result = None, job_error = None,
           emitted = [], http = [], files = Map.empty\<rparr>"

definition getPrinterSyncStatus :: "UploadMaterialsJob \<Rightarrow> sync_status" where
  "getPrinterSyncStatus s = printer_sync_status s"

definition onProcessProgressChanged :: "real \<Rightarrow> UploadMaterialsJob \<Rightarrow> UploadMaterialsJob" where
  "onProcessProgressChanged progress s =
     emit (UploadProgressChanged (progress * 0.8) (getPrinterSyncStatus s)) s"

text \<open>
  Modelled from the spec: \<^verbatim>\<open>CloudMaterialSync.exportAll\<close>, the archive producer, is not in
  the source file. Given a destination it writes a package there and reports fractional
  progress during the write; \<^verbatim>\<open>__init__\<close> connects the progress signal it is given to
  \<^verbatim>\<open>_onProcessProgressChanged\<close>.
\<close>

definition exportAll :: "env \<Rightarrow> string \<Rightarrow> UploadMaterialsJob \<Rightarrow> UploadMaterialsJob" where
  "exportAll e destination s =
     fold onProcessProgressChanged (exportAll_progress e)
       (s\<lparr>files := (files s)(destination \<mapsto> exportAll_data e)\<rparr>)"

definition run :: "env \<Rightarrow> UploadMaterialsJob \<Rightarrow> outcome" where
  "run e s =
     (let s1 = s\<lparr>printer_metadata := findContainerStacksMetadata e\<rparr>;
          s2 = fold (\<lambda>printer. set_status (host_guid printer) ''uploading'')
                 (printer_metadata s1) s1;
          archive_file = NamedTemporaryFile e;
          s3 = s2\<lparr>files := (files s2)(archive_file \<mapsto> [])\<rparr>;
          s4 = s3\<lparr>archive_filename := Some archive_file\<rparr>;
          s5 = exportAll e archive_file s4
      in case files s5 archive_file of
           None \<Rightarrow> Inl (FileNotFoundError, s5)
         | Some contents \<Rightarrow>
             (let file_size = length contents;
                  request_payload =
                    RequestMetadata file_size ''cura.umm'' ''application/zip'' ''cura''
              in Inr (http_put (UPLOAD_REQUEST_URL e) request_payload
                        OnUploadRequestCompleted OnError s5)))"

definition failed :: "UploadMaterialsError \<Rightarrow> UploadMaterialsJob \<Rightarrow> outcome" where
  "failed error s =
     (case Result_member ''FAILED'' of
        Inl x \<Rightarrow> Inl (x, s)
      | Inr r \<Rightarrow>
          (let s1 = setResult r s;
               s2 = setError error s1;
               s3 = fold (\<lambda>printer_id. set_status printer_id ''failed'')
                      (map fst (printer_sync_status s2)) s2;
               s4 = emit (UploadProgressChanged 1.0 (getPrinterSyncStatus s3)) s3
           in Inr (emit (UploadCompleted (getResult s4) (getError s4)) s4)))"

definition onUploadRequestCompleted ::
  "QNetworkReply \<Rightarrow> NetworkError option \<Rightarrow> UploadMaterialsJob \<Rightarrow> outcome" where
  "onUploadRequestCompleted reply error s =
     (case readJSON reply of
        None \<Rightarrow>
          failed (UploadMaterialsError (i18nc ''@text:error''
            ''The response from Digital Factory appears to be corrupted.'')) s
      | Some response_data \<Rightarrow>
          (case response_data ''upload_url'' of
             None \<Rightarrow>
               failed (UploadMaterialsError (i18nc ''@text:error''
                 ''The response from Digital Factory is missing important information.'')) s
           | Some upload_url \<Rightarrow>
               (case response_data ''material_profile_id'' of
                  None \<Rightarrow>
                    failed (UploadMaterialsError (i18nc ''@text:error''
                      ''The response from Digital Factory is missing important information.'')) s
                | Some material_profile_id \<Rightarrow>
                    (let s1 = s\<lparr>archive_remote_id := Some material_profile_id\<rparr>
                     in case archive_filename s1 of
                          None \<Rightarrow> Inl (TypeError, s1)
                        | Some filename \<Rightarrow>
                            (case files s1 filename of
                               None \<Rightarrow> Inl (FileNotFoundError, s1)
                             | Some file_data \<Rightarrow>
                                 Inr (http_put upload_url (FileData file_data)
                                        OnUploadCompleted OnError s1))))))"

definition onUploadCompleted ::
  "env \<Rightarrow> QNetworkReply \<Rightarrow> NetworkError option \<Rightarrow> UploadMaterialsJob \<Rightarrow> outcome" where
  "onUploadCompleted e reply error s =
     Inr (fold (\<lambda>container_stack.
                  (let cluster_id = um_cloud_cluster_id container_stack;
                       printer_id = host_guid container_stack
                   in http_get (UPLOAD_CONFIRM_URL e cluster_id printer_id)
                        (OnUploadConfirmed printer_id) (OnUploadConfirmed printer_id)))
            (printer_metadata s) s)"

definition onUploadConfirmed ::
  "string \<Rightarrow> QNetworkReply \<Rightarrow> NetworkError option \<Rightarrow> UploadMaterialsJob \<Rightarrow> outcome" where
  "onUploadConfirmed printer_id reply error s =
     (let s1 = (if error \<noteq> None then set_status printer_id ''failed'' s
                else set_status printer_id ''success'' s);
          still_uploading =
            length (filter (\<lambda>val. val = ''uploading'') (map snd (printer_sync_status s1)));
          s2 = emit (UploadProgressChanged
                       (0.8 + real (length (printer_sync_status s1) - still_uploading)
                                / real (length (printer_sync_status s1)))
                       (getPrinterSyncStatus s1)) s1
      in if still_uploading = 0 then
           (if ''failed'' \<in> set (map snd (printer_sync_status s2)) then
              (case Result_member ''FAILED'' of
                 Inl x \<Rightarrow> Inl (x, s2)
               | Inr r \<Rightarrow>
                   (let s3 = setResult r s2;
                        s4 = setError (UploadMaterialsError (i18nc ''@text:error''
                               ''Failed to connect to Digital Factory to sync materials with some of the printers.'')) s3
                    in Inr (emit (UploadCompleted (getResult s4) (getError s4)) s4)))
            else
              (case Result_member ''SUCCESS'' of
                 Inl x \<Rightarrow> Inl (x, s2)
               | Inr r \<Rightarrow>
                   (let s3 = setResult r s2
                    in Inr (emit (UploadCompleted (getResult s3) (getError s3)) s3))))
         else Inr s2)"

definition onError ::
  "QNetworkReply \<Rightarrow> NetworkError option \<Rightarrow> UploadMaterialsJob \<Rightarrow> outcome" where
  "onError reply error s =
     failed (UploadMaterialsError (i18nc ''@text:error''
       ''Failed to connect to Digital Factory.'')) s"

section \<open>The request manager's side\<close>

text \<open>
  The HTTP client is not part of the source file. Its contract is taken from the way the
  job uses it: a request carries a callback and an error callback, and when the request
  resolves exactly one of them is called, once, the error callback when the transport
  reports an error. A request is named by its position in the order of issue. An
  exception that leaves a callback is recorded and the event loop goes on.

  Calling a bound method runs the method. Calling a \<^verbatim>\<open>functools.partialmethod\<close> object
  raises \<^verbatim>\<open>TypeError\<close>, since the class defines no \<^verbatim>\<open>__call__\<close>: the callbacks of a
  confirmation request never reach \<^verbatim>\<open>onUploadConfirmed\<close>, and the job is left as it was.
\<close>

fun callback_of :: "request \<Rightarrow> callback" where
  "callback_of (Put url data cb error_cb) = cb"
| "callback_of (Get url cb error_cb) = cb"

fun error_callback_of :: "request \<Rightarrow> callback" where
  "error_callback_of (Put url data cb error_cb) = error_cb"
| "error_callback_of (Get url cb error_cb) = error_cb"

fun invoke ::
  "env \<Rightarrow> callback \<Rightarrow> QNetworkReply \<Rightarrow> NetworkError option \<Rightarrow> UploadMaterialsJob \<Rightarrow> outcome" where
  "invoke e OnUploadRequestCompleted reply error s = onUploadRequestCompleted reply error s"
| "invoke e OnUploadCompleted reply error s = onUploadCompleted e reply error s"
| "invoke e (OnUploadConfirmed printer_id) reply error s = Inl (TypeError, s)"
| "invoke e OnError reply error s = onError reply error s"

record world =
  the_job :: UploadMaterialsJob
  answered :: "nat list"
  uncaught :: "exn list"

datatype event = Resolve nat QNetworkReply "NetworkError option"

definition settle :: "nat \<Rightarrow> outcome \<Rightarrow> world \<Rightarrow> world" where
  "settle i out w =
     (case out of
        Inr s \<Rightarrow> w\<lparr>the_job := s, answered := i # answered w\<rparr>
      | Inl (x, s) \<Rightarrow> w\<lparr>the_job := s, answered := i # answered w, uncaught := uncaught w @ [x]\<rparr>)"

fun deliver :: "env \<Rightarrow> event \<Rightarrow> world \<Rightarrow> world option" where
  "deliver e (Resolve i reply error) w =
     (if i < length (http (the_job w)) \<and> i \<notin> set (answered w) then
        (let req = http (the_job w) ! i;
             cb = (if error = None then callback_of req else error_callback_of req)
         in Some (settle i (invoke e cb reply error (the_job w)) w))
      else None)"

fun exec :: "env \<Rightarrow> event list \<Rightarrow> world \<Rightarrow> world option" where
  "exec e [] w = Some w"
| "exec e (ev # evs) w =
     (case deliver e ev w of None \<Rightarrow> None | Some w' \<Rightarrow> exec e evs w')"

text \<open>The world once \<^verbatim>\<open>run\<close> has been called on a fresh job.\<close>

definition start :: "env \<Rightarrow> world" where
  "start e =
     (case run e init of
        Inr s \<Rightarrow> \<lparr>the_job = s, answered = [], uncaught = []\<rparr>
      | Inl (x, s) \<Rightarrow> \<lparr>the_job = s, answered = [], uncaught = [x]\<rparr>)"

text \<open>What a listener of the job's signals has seen.\<close>

fun progress_values :: "signal list \<Rightarrow> real list" where
  "progress_values [] = []"
| "progress_values (UploadProgressChanged p st # sgs) = p # progress_values sgs"
| "progress_values (UploadCompleted r x # sgs) = progress_values sgs"

fun completions :: "signal list \<Rightarrow> (Result option \<times> UploadMaterialsError option) list" where
  "completions [] = []"
| "completions (UploadProgressChanged p st # sgs) = completions sgs"
| "completions (UploadCompleted r x # sgs) = (r, x) # completions sgs"

fun is_confirmation :: "request \<Rightarrow> bool" where
  "is_confirmation (Get url (OnUploadConfirmed printer_id) error_cb) = True"
| "is_confirmation req = False"

text \<open>The job as a method left it, whether it returned or raised.\<close>

definition job_after :: "outcome \<Rightarrow> UploadMaterialsJob" where
  "job_after out = (case out of Inl (x, s) \<Rightarrow> s | Inr s \<Rightarrow> s)"

text \<open>
  A response to the upload request is malformed when it cannot be parsed or lacks one of
  the two fields that \<^verbatim>\<open>onUploadRequestCompleted\<close> checks for.
\<close>

definition malformed :: "QNetworkReply \<Rightarrow> bool" where
  "malformed reply =
     (case readJSON reply of
        None \<Rightarrow> True
      | Some response_data \<Rightarrow>
          response_data ''upload_url'' = None \<or> response_data ''material_profile_id'' = None)"

text \<open>
  The fatal failures of the first two phases: the error callback of either upload
  request, or the completion callback of the upload request on a malformed response.
\<close>

definition fatal :: "callback \<Rightarrow> QNetworkReply \<Rightarrow> bool" where
  "fatal cb reply = (cb = OnError \<or> (cb = OnUploadRequestCompleted \<and> malformed reply))"

section \<open>Concrete jobs and environments\<close>

text \<open>An environment whose registry finds no printer.\<close>

definition env0 :: env where
  "env0 = \<lparr>CuraCloudAPIRoot = ''https://api'', findContainerStacksMetadata = [],
            NamedTemporaryFile = ''/tmp/a'', exportAll_data = ''zip'',
            exportAll_progress = [0.5, 1]\<rparr>"

text \<open>An environment whose registry finds one printer.\<close>

definition env1 :: env where
  "env1 = \<lparr>CuraCloudAPIRoot = ''https://api'',
            findContainerStacksMetadata = [\<lparr>host_guid = ''p1'', um_cloud_cluster_id = ''c1''\<rparr>],
            NamedTemporaryFile = ''/tmp/a'', exportAll_data = ''zip'',
            exportAll_progress = [0.5, 1]\<rparr>"

text \<open>A well-formed response to the upload request.\<close>

definition good_reply :: QNetworkReply where
  "good_reply =
     Some (map_of [(''upload_url'', ''https://up''), (''material_profile_id'', ''m1'')])"

text \<open>An environment whose registry finds two printers.\<close>

definition env2 :: env where
  "env2 = \<lparr>CuraCloudAPIRoot = ''https://api'',
            findContainerStacksMetadata =
              [\<lparr>host_guid = ''p1'', um_cloud_cluster_id = ''c1''\<rparr>,
               \<lparr>host_guid = ''p2'', um_cloud_cluster_id = ''c1''\<rparr>],
            NamedTemporaryFile = ''/tmp/a'', exportAll_data = ''zip'',
            exportAll_progress = [0.5, 1]\<rparr>"

text \<open>
  The world of \<open>env2\<close> once the upload request and the upload have completed: two
  confirmation requests are outstanding.
\<close>

definition confirming2 :: world where
  "confirming2 =
     \<lparr>the_job = job_after (onUploadCompleted env2 None None
                  (job_after (onUploadRequestCompleted good_reply None
                     (job_after (run env2 init))))),
      answered = [1, 0], uncaught = []\<rparr>"

text \<open>
  The world of \<open>env1\<close> once the upload request and the upload have completed: the one
  confirmation request is outstanding.
\<close>

definition confirming1 :: world where
  "confirming1 =
     \<lparr>the_job = job_after (onUploadCompleted env1 None None
                  (job_after (onUploadRequestCompleted good_reply None
                     (job_after (run env1 init))))),
      answered = [1, 0], uncaught = []\<rparr>"

section \<open>The phases of a run\<close>

text \<open>
  The requests as \<^verbatim>\<open>run\<close> and \<^verbatim>\<open>onUploadCompleted\<close> issue them, and the shape of the world in
  each phase of a run. They serve to state what holds of every world that the request
  manager can bring about from a started job.
\<close>

definition upload_request :: "env \<Rightarrow> request" where
  "upload_request e =
     Put (UPLOAD_REQUEST_URL e)
       (RequestMetadata (length (exportAll_data e)) ''cura.umm'' ''application/zip'' ''cura'')
       OnUploadRequestCompleted OnError"

definition confirm_request :: "env \<Rightarrow> container_metadata \<Rightarrow> request" where
  "confirm_request e c =
     Get (UPLOAD_CONFIRM_URL e (um_cloud_cluster_id c) (host_guid c))
       (OnUploadConfirmed (host_guid c)) (OnUploadConfirmed (host_guid c))"

definition all_uploading :: "env \<Rightarrow> UploadMaterialsJob \<Rightarrow> bool" where
  "all_uploading e s =
     (\<forall>c \<in> set (findContainerStacksMetadata e).
        map_of (printer_sync_status s) (host_guid c) = Some ''uploading'')"

definition nothing_outstanding :: "world \<Rightarrow> bool" where
  "nothing_outstanding w = (\<forall>i < length (http (the_job w)). i \<in> set (answered w))"

definition unfinished :: "UploadMaterialsJob \<Rightarrow> bool" where
  "unfinished s = (job_result s = None \<and> job_error s = None \<and> completions (emitted s) = [])"

definition requesting :: "env \<Rightarrow> world \<Rightarrow> bool" where
  "requesting e w =
     (http (the_job w) = [upload_request e] \<and> answered w = []
      \<and> all_uploading e (the_job w))"

definition uploading :: "env \<Rightarrow> world \<Rightarrow> bool" where
  "uploading e w =
     ((\<exists>u d. http (the_job w) = [upload_request e, Put u d OnUploadCompleted OnError])
      \<and> set (answered w) = {0} \<and> all_uploading e (the_job w))"

definition confirming :: "env \<Rightarrow> world \<Rightarrow> bool" where
  "confirming e w =
     ((\<exists>p2. http (the_job w) =
          upload_request e # p2 # map (confirm_request e) (findContainerStacksMetadata e))
      \<and> 0 \<in> set (answered w) \<and> 1 \<in> set (answered w)
      \<and> (\<forall>k < length (findContainerStacksMetadata e). k + 2 \<notin> set (answered w) \<longrightarrow>
            map_of (printer_sync_status (the_job w))
              (host_guid (findContainerStacksMetadata e ! k)) = Some ''uploading''))"

definition run_inv :: "env \<Rightarrow> world \<Rightarrow> bool" where
  "run_inv e w =
     (nothing_outstanding w
      \<or> (unfinished (the_job w)
          \<and> printer_metadata (the_job w) = findContainerStacksMetadata e
          \<and> (requesting e w \<or> uploading e w \<or> confirming e w)))"

text \<open>
  The two upload requests are answered: whatever is outstanding is a confirmation request.
\<close>

definition uploads_answered :: "world \<Rightarrow> bool" where
  "uploads_answered w =
     (\<forall>i < length (http (the_job w)). i \<notin> set (answered w) \<longrightarrow>
        (\<exists>url printer_id. http (the_job w) ! i =
           Get url (OnUploadConfirmed printer_id) (OnUploadConfirmed printer_id)))"

definition upload_inv :: "env \<Rightarrow> world \<Rightarrow> bool" where
  "upload_inv e w =
     (uploads_answered w
      \<or> (unfinished (the_job w)
          \<and> printer_metadata (the_job w) = findContainerStacksMetadata e
          \<and> (requesting e w \<or> uploading e w)))"

text \<open>
  The world of \<open>env1\<close> once the upload request has completed: the upload is outstanding.
\<close>

definition uploading1 :: world where
  "uploading1 =
     \<lparr>the_job = job_after (onUploadRequestCompleted good_reply None
                  (job_after (run env1 init))),
      answered = [0], uncaught = []\<rparr>"

text \<open>The exception a method raised, if it raised.\<close>

definition raised :: "outcome \<Rightarrow> exn option" where
  "raised out = (case out of Inl (x, s) \<Rightarrow> Some x | Inr s \<Rightarrow> None)"

text \<open>An environment whose registry finds two container stacks with the same \<^verbatim>\<open>host_guid\<close>.\<close>

definition env_twin :: env where
  "env_twin = \<lparr>CuraCloudAPIRoot = ''https://api'',
            findContainerStacksMetadata =
              [\<lparr>host_guid = ''p1'', um_cloud_cluster_id = ''c1''\<rparr>,
               \<lparr>host_guid = ''p1'', um_cloud_cluster_id = ''c2''\<rparr>],
            NamedTemporaryFile = ''/tmp/a'', exportAll_data = ''zip'',
            exportAll_progress = [0.5, 1]\<rparr>"

text \<open>
  The world of \<open>env_twin\<close> once the upload request and the upload have completed: the
  status table has one entry and two confirmation requests are outstanding.
\<close>

definition confirming_twin :: world where
  "confirming_twin =
     \<lparr>the_job = job_after (onUploadCompleted env_twin None None
                  (job_after (onUploadRequestCompleted good_reply None
                     (job_after (run env_twin init))))),
      answered = [1, 0], uncaught = []\<rparr>"



section \<open>Basic facts\<close>

lemma Result_member_FAILED: "Result_member ''FAILED'' = Inr FAILED"
  by (simp add: Result_member_def)

lemma Result_member_SUCCESS: "Result_member ''SUCCESS'' = Inl (AttributeError ''SUCCESS'')"
  by (simp add: Result_member_def)

lemma fold_set_status:
  "fold (\<lambda>k. set_status k v) ks s =
     s\<lparr>printer_sync_status := fold (\<lambda>k. AList.update k v) ks (printer_sync_status s)\<rparr>"
  by (induction ks arbitrary: s) (simp_all add: set_status_def)

lemma fold_update_keys:
  "set ks \<subseteq> set (map fst al) \<Longrightarrow> map fst (fold (\<lambda>k. AList.update k v) ks al) = map fst al"
proof (induction ks arbitrary: al)
  case Nil
  show ?case by simp
next
  case (Cons a ks)
  then have same: "map fst (AList.update a v al) = map fst al"
    by (simp add: update_keys)
  with Cons.prems have "set ks \<subseteq> set (map fst (AList.update a v al))"
    by simp
  then have "map fst (fold (\<lambda>k. AList.update k v) ks (AList.update a v al)) =
      map fst (AList.update a v al)"
    by (rule Cons.IH)
  with same show ?case by simp
qed

lemma fold_update_map_of:
  "map_of (fold (\<lambda>k. AList.update k v) ks al) k = (if k \<in> set ks then Some v else map_of al k)"
  by (induction ks arbitrary: al) (auto simp: update_conv')

lemma fold_update_all_values:
  assumes "distinct (map fst al)"
  shows "\<forall>x \<in> set (map snd (fold (\<lambda>k. AList.update k v) (map fst al) al)). x = v"
proof
  let ?al' = "fold (\<lambda>k. AList.update k v) (map fst al) al"
  fix x assume "x \<in> set (map snd ?al')"
  then obtain k where kx: "(k, x) \<in> set ?al'" by auto
  have keys: "map fst ?al' = map fst al" by (rule fold_update_keys) simp
  with assms have "distinct (map fst ?al')" by simp
  with kx have "map_of ?al' k = Some x" by simp
  moreover from kx have "k \<in> set (map fst ?al')" by force
  ultimately show "x = v" using keys by (simp add: fold_update_map_of)
qed

text \<open>The general-failure helper in one step.\<close>

lemma failed_eq:
  "failed error s =
     Inr (s\<lparr>job_result := Some FAILED, job_error := Some error,
            printer_sync_status :=
              fold (\<lambda>k. AList.update k ''failed'') (map fst (printer_sync_status s))
                (printer_sync_status s),
            emitted := emitted s @
              [UploadProgressChanged 1
                 (fold (\<lambda>k. AList.update k ''failed'') (map fst (printer_sync_status s))
                    (printer_sync_status s)),
               UploadCompleted (Some FAILED) (Some error)]\<rparr>)"
  by (simp add: failed_def Result_member_FAILED fold_set_status setResult_def setError_def
      emit_def getPrinterSyncStatus_def getResult_def getError_def Let_def)

lemma fatal_calls_failed:
  assumes "fatal cb reply"
  shows "\<exists>msg. msg \<noteq> [] \<and> invoke e cb reply err s = failed (UploadMaterialsError msg) s"
proof -
  from assms consider "cb = OnError" | "cb = OnUploadRequestCompleted" "malformed reply"
    by (auto simp: fatal_def)
  then show ?thesis
  proof cases
    case 1
    then show ?thesis by (auto simp: onError_def i18nc_def)
  next
    case 2
    then show ?thesis
      by (auto simp: onUploadRequestCompleted_def malformed_def i18nc_def
          split: option.splits)
  qed
qed

text \<open>The confirmation handler in one step.\<close>

lemma onUploadConfirmed_eq:
  fixes printer_id reply error s
  defines "T \<equiv> AList.update printer_id (if error \<noteq> None then ''failed'' else ''success'')
                 (printer_sync_status s)"
  defines "u \<equiv> length (filter (\<lambda>val. val = ''uploading'') (map snd T))"
  defines "s2 \<equiv> s\<lparr>printer_sync_status := T,
                    emitted := emitted s @
                      [UploadProgressChanged (0.8 + real (length T - u) / real (length T)) T]\<rparr>"
  shows "onUploadConfirmed printer_id reply error s =
     (if u = 0 then
        (if ''failed'' \<in> set (map snd T) then
           Inr (s2\<lparr>job_result := Some FAILED,
                   job_error := Some (UploadMaterialsError
                     ''Failed to connect to Digital Factory to sync materials with some of the printers.''),
                   emitted := emitted s2 @
                     [UploadCompleted (Some FAILED) (Some (UploadMaterialsError
                        ''Failed to connect to Digital Factory to sync materials with some of the printers.''))]\<rparr>)
         else Inl (AttributeError ''SUCCESS'', s2))
      else Inr s2)"
  unfolding T_def u_def s2_def
  by (simp add: onUploadConfirmed_def Result_member_FAILED Result_member_SUCCESS
      set_status_def setResult_def setError_def emit_def getPrinterSyncStatus_def
      getResult_def getError_def i18nc_def Let_def)

lemma progress_values_append:
  "progress_values (xs @ ys) = progress_values xs @ progress_values ys"
  by (induction xs rule: progress_values.induct) simp_all

lemma completions_append:
  "completions (xs @ ys) = completions xs @ completions ys"
  by (induction xs rule: completions.induct) simp_all

section \<open>Starting the job\<close>

lemma fold_onProcessProgressChanged:
  "fold onProcessProgressChanged ps s =
     s\<lparr>emitted := emitted s @ map (\<lambda>p. UploadProgressChanged (p * 0.8) (printer_sync_status s)) ps\<rparr>"
  by (induction ps arbitrary: s)
     (simp_all add: onProcessProgressChanged_def emit_def getPrinterSyncStatus_def)

lemma run_eq:
  "run e s =
     Inr (s\<lparr>printer_metadata := findContainerStacksMetadata e,
            printer_sync_status :=
              fold (\<lambda>k. AList.update k ''uploading'')
                (map host_guid (findContainerStacksMetadata e)) (printer_sync_status s),
            files := (files s)(NamedTemporaryFile e \<mapsto> exportAll_data e),
            archive_filename := Some (NamedTemporaryFile e),
            emitted := emitted s @
              map (\<lambda>p. UploadProgressChanged (p * 0.8)
                     (fold (\<lambda>k. AList.update k ''uploading'')
                        (map host_guid (findContainerStacksMetadata e)) (printer_sync_status s)))
                (exportAll_progress e),
            http := http s @
              [Put (UPLOAD_REQUEST_URL e)
                 (RequestMetadata (length (exportAll_data e)) ''cura.umm'' ''application/zip'' ''cura'')
                 OnUploadRequestCompleted OnError]\<rparr>)"
proof -
  have h: "fold (\<lambda>printer. set_status (host_guid printer) v) ms t =
      t\<lparr>printer_sync_status :=
          fold (\<lambda>k. AList.update k v) (map host_guid ms) (printer_sync_status t)\<rparr>" for v ms t
    by (induction ms arbitrary: t) (simp_all add: set_status_def)
  show ?thesis
    by (simp add: run_def exportAll_def fold_onProcessProgressChanged h
        http_put_def Let_def)
qed

lemma malformed_calls_failed:
  assumes "malformed reply"
  shows "\<exists>msg \<in> {''The response from Digital Factory appears to be corrupted.'',
                 ''The response from Digital Factory is missing important information.''}.
           onUploadRequestCompleted reply err s = failed (UploadMaterialsError msg) s"
  using assms
  by (auto simp: onUploadRequestCompleted_def malformed_def i18nc_def split: option.splits)

lemma completions_progress [simp]:
  "completions (map (\<lambda>p. UploadProgressChanged (f p) T) ps) = []"
  by (induction ps) simp_all

lemma progress_values_progress [simp]:
  "progress_values (map (\<lambda>p. UploadProgressChanged (f p) T) ps) = map f ps"
  by (induction ps) simp_all

lemma start_eq:
  "start e = \<lparr>the_job = job_after (run e init), answered = [], uncaught = []\<rparr>"
  by (simp add: start_def run_eq job_after_def)

lemma start_http:
  "http (the_job (start e)) =
     [Put (UPLOAD_REQUEST_URL e)
        (RequestMetadata (length (exportAll_data e)) ''cura.umm'' ''application/zip'' ''cura'')
        OnUploadRequestCompleted OnError]"
  by (simp add: start_eq run_eq job_after_def init_def)

lemma start_fresh:
  "answered (start e) = []" "uncaught (start e) = []"
  "job_result (the_job (start e)) = None" "job_error (the_job (start e)) = None"
  "completions (emitted (the_job (start e))) = []"
  by (simp_all add: start_eq run_eq job_after_def init_def completions_append
      comp_def)

section \<open>A malformed response to the upload request\<close>

text \<open>
  C5. When the response to the upload request cannot be parsed, or lacks \<open>upload_url\<close> or
  \<open>material_profile_id\<close>, the job fails at once: the result is failed, the error carries
  one of the two messages for a malformed response, one completion notification is
  emitted, no exception escapes, and the upload request stays the only request ever
  issued. No request is outstanding afterwards, so no further callback can arrive
  (\<open>evs = []\<close>) and no confirmation request is ever issued.
\<close>

theorem malformed_upload_response_is_fatal:
  assumes "malformed reply"
      and "exec e (Resolve 0 reply None # evs) (start e) = Some w"
  shows "evs = [] \<and> uncaught w = []
    \<and> job_result (the_job w) = Some FAILED
    \<and> (\<exists>msg \<in> {''The response from Digital Factory appears to be corrupted.'',
                  ''The response from Digital Factory is missing important information.''}.
          job_error (the_job w) = Some (UploadMaterialsError msg)
          \<and> completions (emitted (the_job w)) = [(Some FAILED, Some (UploadMaterialsError msg))])
    \<and> filter is_confirmation (http (the_job w)) = []
    \<and> length (http (the_job w)) = 1"
proof -
  let ?s0 = "the_job (start e)"
  from assms(1) obtain msg where
    msg: "msg \<in> {''The response from Digital Factory appears to be corrupted.'',
                 ''The response from Digital Factory is missing important information.''}"
    and inv: "onUploadRequestCompleted reply None ?s0 = failed (UploadMaterialsError msg) ?s0"
    using malformed_calls_failed by blast
  obtain s1 where s1: "failed (UploadMaterialsError msg) ?s0 = Inr s1"
    and res: "job_result s1 = Some FAILED"
    and er: "job_error s1 = Some (UploadMaterialsError msg)"
    and req: "http s1 = http ?s0"
    and em: "completions (emitted s1) = completions (emitted ?s0) @ [(Some FAILED, Some (UploadMaterialsError msg))]"
    by (simp add: failed_eq completions_append)
  define w1 where "w1 = (start e)\<lparr>the_job := s1, answered := [0]\<rparr>"
  have d: "deliver e (Resolve 0 reply None) (start e) = Some w1"
    by (simp add: start_http start_fresh inv s1 settle_def w1_def)
  have none: "deliver e ev w1 = None" for ev
    by (cases ev) (auto simp: w1_def req start_http)
  from assms(2) d have ex: "exec e evs w1 = Some w" by simp
  have evs: "evs = []"
  proof (cases evs)
    case Nil then show ?thesis .
  next
    case (Cons ev rest)
    with ex none show ?thesis by simp
  qed
  with ex have w: "w = w1" by simp
  have "uncaught w = []" by (simp add: w w1_def start_fresh)
  moreover have "job_result (the_job w) = Some FAILED" by (simp add: w w1_def res)
  moreover have "job_error (the_job w) = Some (UploadMaterialsError msg)"
    by (simp add: w w1_def er)
  moreover have "completions (emitted (the_job w)) = [(Some FAILED, Some (UploadMaterialsError msg))]"
    by (simp add: w w1_def em start_fresh)
  moreover have "filter is_confirmation (http (the_job w)) = []"
    by (simp add: w w1_def req start_http)
  moreover have "length (http (the_job w)) = 1"
    by (simp add: w w1_def req start_http)
  ultimately show ?thesis using evs msg by blast
qed


theorem malformed_upload_response_is_fatal_witness:
  "malformed None
   \<and> (\<exists>w. exec env1 (Resolve 0 None None # []) (start env1) = Some w
        \<and> uncaught w = [] \<and> job_result (the_job w) = Some FAILED
        \<and> (\<exists>msg \<in> {''The response from Digital Factory appears to be corrupted.'',
                  ''The response from Digital Factory is missing important information.''}.
          job_error (the_job w) = Some (UploadMaterialsError msg)
          \<and> completions (emitted (the_job w)) = [(Some FAILED, Some (UploadMaterialsError msg))])
        \<and> filter is_confirmation (http (the_job w)) = []
        \<and> length (http (the_job w)) = 1)"
proof -
  have m: "malformed None" by (simp add: malformed_def readJSON_def)
  obtain w where w: "exec env1 (Resolve 0 None None # []) (start env1) = Some w"
    by (simp add: start_http start_fresh)
  from m w malformed_upload_response_is_fatal [OF m w] show ?thesis by blast
qed

lemma fold_http_get:
  "fold (\<lambda>c. http_get (f c) (g c) (h c)) cs s = s\<lparr>http := http s @ map (\<lambda>c. Get (f c) (g c) (h c)) cs\<rparr>"
  by (induction cs arbitrary: s) (simp_all add: http_get_def)

lemma onUploadCompleted_eq:
  "onUploadCompleted e reply err s =
     Inr (s\<lparr>http := http s @
            map (\<lambda>c. Get (UPLOAD_CONFIRM_URL e (um_cloud_cluster_id c) (host_guid c))
                       (OnUploadConfirmed (host_guid c)) (OnUploadConfirmed (host_guid c)))
              (printer_metadata s)\<rparr>)"
  by (simp add: onUploadCompleted_def Let_def fold_http_get)

lemma invoke_files:
  "files (job_after (invoke e cb reply err s)) = files s"
  "archive_filename (job_after (invoke e cb reply err s)) = archive_filename s"
proof -
  have "files (job_after (invoke e cb reply err s)) = files s
      \<and> archive_filename (job_after (invoke e cb reply err s)) = archive_filename s"
  proof (cases cb)
    case OnUploadRequestCompleted
    then show ?thesis
      by (simp add: onUploadRequestCompleted_def failed_eq job_after_def http_put_def
          Let_def split: option.splits)
  next
    case OnUploadCompleted
    then show ?thesis by (simp add: onUploadCompleted_eq job_after_def)
  next
    case (OnUploadConfirmed printer_id)
    then show ?thesis by (simp add: job_after_def)
  next
    case OnError
    then show ?thesis by (simp add: onError_def failed_eq job_after_def)
  qed
  then show "files (job_after (invoke e cb reply err s)) = files s"
    "archive_filename (job_after (invoke e cb reply err s)) = archive_filename s"
    by simp_all
qed

lemma settle_job: "the_job (settle i out w) = job_after out"
  by (simp add: settle_def job_after_def split: sum.splits prod.splits)

lemma deliver_files:
  assumes "deliver e ev w = Some w'"
  shows "files (the_job w') = files (the_job w)"
    and "archive_filename (the_job w') = archive_filename (the_job w)"
  using assms
  by (cases ev; simp add: Let_def settle_job invoke_files split: if_splits; fastforce simp: settle_job invoke_files)+

lemma exec_files:
  assumes "exec e evs w = Some w'"
  shows "files (the_job w') = files (the_job w)
    \<and> archive_filename (the_job w') = archive_filename (the_job w)"
  using assms
proof (induction evs arbitrary: w)
  case Nil
  then show ?case by simp
next
  case (Cons ev evs)
  then obtain w1 where d: "deliver e ev w = Some w1" and x: "exec e evs w1 = Some w'"
    by (auto split: option.splits)
  from Cons.IH [OF x] deliver_files [OF d] show ?case by simp
qed

section \<open>The archive file\<close>

text \<open>
  C9. No method of the job deletes the temporary archive: whatever callbacks arrive after
  \<^verbatim>\<open>run\<close>, in whatever order and with whatever outcome, also when one of them fails or
  raises, the job still names the file and the file still holds the archive, and no file
  on disk has been removed or changed since \<^verbatim>\<open>run\<close> returned.
\<close>

theorem archive_file_is_never_deleted:
  assumes "exec e evs (start e) = Some w"
  shows "archive_filename (the_job w) = Some (NamedTemporaryFile e)
    \<and> files (the_job w) (NamedTemporaryFile e) = Some (exportAll_data e)
    \<and> files (the_job w) = files (the_job (start e))"
  using exec_files [OF assms]
  by (simp add: start_eq run_eq job_after_def)


theorem archive_file_is_never_deleted_witness:
  "\<exists>w. exec env1 [Resolve 0 good_reply None, Resolve 1 None None, Resolve 2 None (Some 1)]
         (start env1) = Some w
    \<and> archive_filename (the_job w) = Some (NamedTemporaryFile env1)
    \<and> files (the_job w) (NamedTemporaryFile env1) = Some (exportAll_data env1)
    \<and> files (the_job w) = files (the_job (start env1))"
proof -
  obtain w where w: "exec env1 [Resolve 0 good_reply None, Resolve 1 None None,
      Resolve 2 None (Some 1)] (start env1) = Some w"
    by (simp add: start_eq run_eq job_after_def init_def env1_def good_reply_def settle_def
        onUploadRequestCompleted_def readJSON_def http_put_def onUploadCompleted_eq
        onUploadConfirmed_eq Let_def)
  from w archive_file_is_never_deleted [OF w] show ?thesis by blast
qed

section \<open>The confirmation handler and the worlds before confirmation\<close>


lemma onUploadConfirmed_http:
  "http (job_after (onUploadConfirmed printer_id reply error s)) = http s"
  by (simp add: onUploadConfirmed_eq job_after_def)

lemmas eval_defs = start_eq run_eq job_after_def init_def good_reply_def settle_def
  onUploadRequestCompleted_def readJSON_def http_put_def onUploadCompleted_eq
  onUploadConfirmed_eq failed_eq onError_def i18nc_def Let_def

lemma confirming2_reached:
  "exec env2 [Resolve 0 good_reply None, Resolve 1 None None] (start env2) = Some confirming2"
  by (simp add: confirming2_def env2_def eval_defs)

lemma confirming1_reached:
  "exec env1 [Resolve 0 good_reply None, Resolve 1 None None] (start env1) = Some confirming1"
  by (simp add: confirming1_def env1_def eval_defs)


section \<open>Starting without printers\<close>

text \<open>
  C4, as amended. When the registry finds no printer, \<^verbatim>\<open>run\<close> does not fail: it returns
  normally, with an empty status table, no result, no error and no completion
  notification; it writes the archive and issues exactly one request, the upload request.
\<close>

theorem start_without_printers:
  assumes "findContainerStacksMetadata e = []"
  shows "run e init = Inr (the_job (start e))
    \<and> uncaught (start e) = []
    \<and> printer_sync_status (the_job (start e)) = []
    \<and> job_result (the_job (start e)) = None
    \<and> job_error (the_job (start e)) = None
    \<and> completions (emitted (the_job (start e))) = []
    \<and> files (the_job (start e)) (NamedTemporaryFile e) = Some (exportAll_data e)
    \<and> http (the_job (start e)) =
         [Put (UPLOAD_REQUEST_URL e)
            (RequestMetadata (length (exportAll_data e)) ''cura.umm'' ''application/zip'' ''cura'')
            OnUploadRequestCompleted OnError]"
  using assms
  by (simp add: start_eq run_eq job_after_def init_def)

theorem start_without_printers_witness:
  "findContainerStacksMetadata env0 = []
    \<and> run env0 init = Inr (the_job (start env0))
    \<and> printer_sync_status (the_job (start env0)) = []
    \<and> job_result (the_job (start env0)) = None
    \<and> job_error (the_job (start env0)) = None
    \<and> http (the_job (start env0)) =
         [Put ''https://api/connect/v1/materials/upload''
            (RequestMetadata 3 ''cura.umm'' ''application/zip'' ''cura'')
            OnUploadRequestCompleted OnError]"
proof -
  have h: "findContainerStacksMetadata env0 = []" by (simp add: env0_def)
  from h start_without_printers [OF h] show ?thesis
    by (simp add: env0_def UPLOAD_REQUEST_URL_def)
qed

text \<open>
  C4, as stated, fails on the job started in \<open>env0\<close>, whose registry finds no printer:
  \<^verbatim>\<open>run\<close> returns, no error and no result is set, and one request has been issued.
\<close>

theorem start_without_printers_counterexample:
  "findContainerStacksMetadata env0 = []
    \<and> run env0 init = Inr (job_after (run env0 init))
    \<and> job_result (job_after (run env0 init)) = None
    \<and> job_error (job_after (run env0 init)) = None
    \<and> length (http (job_after (run env0 init))) = 1"
  by (simp add: env0_def run_eq job_after_def init_def)

section \<open>Every run goes through the phases\<close>

lemma settle_answered: "answered (settle i out w) = i # answered w"
  by (simp add: settle_def split: sum.splits prod.splits)

lemma deliver_eq:
  assumes "deliver e (Resolve i reply error) w = Some w'"
  shows "i < length (http (the_job w))" "i \<notin> set (answered w)"
    "w' = settle i (invoke e (if error = None then callback_of (http (the_job w) ! i)
                             else error_callback_of (http (the_job w) ! i))
                      reply error (the_job w)) w"
  using assms by (auto simp: Let_def split: if_splits)

lemma failed_after:
  "http (job_after (failed error s)) = http s"
  by (simp add: failed_eq job_after_def)

lemma onUploadRequestCompleted_cases:
  "(\<exists>msg. onUploadRequestCompleted reply error s = failed (UploadMaterialsError msg) s)
   \<or> (\<exists>x m. onUploadRequestCompleted reply error s = Inl (x, s\<lparr>archive_remote_id := Some m\<rparr>))
   \<or> (\<exists>u d m. onUploadRequestCompleted reply error s =
         Inr (s\<lparr>archive_remote_id := Some m,
                http := http s @ [Put u (FileData d) OnUploadCompleted OnError]\<rparr>))"
proof (cases "malformed reply")
  case True
  from malformed_calls_failed [OF this, of error s] show ?thesis by blast
next
  case False
  then obtain r u m where r: "readJSON reply = Some r" "r ''upload_url'' = Some u"
      "r ''material_profile_id'' = Some m"
    by (auto simp: malformed_def split: option.splits)
  show ?thesis
  proof (cases "archive_filename s")
    case None
    with r have "onUploadRequestCompleted reply error s =
        Inl (TypeError, s\<lparr>archive_remote_id := Some m\<rparr>)"
      by (simp add: onUploadRequestCompleted_def Let_def)
    then show ?thesis by blast
  next
    case (Some f)
    show ?thesis
    proof (cases "files s f")
      case None
      with r Some have "onUploadRequestCompleted reply error s =
          Inl (FileNotFoundError, s\<lparr>archive_remote_id := Some m\<rparr>)"
        by (simp add: onUploadRequestCompleted_def Let_def)
      then show ?thesis by blast
    next
      case (Some d)
      with r \<open>archive_filename s = Some f\<close> have "onUploadRequestCompleted reply error s =
          Inr (s\<lparr>archive_remote_id := Some m,
                http := http s @ [Put u (FileData d) OnUploadCompleted OnError]\<rparr>)"
        by (simp add: onUploadRequestCompleted_def http_put_def Let_def)
      then show ?thesis by blast
    qed
  qed
qed

lemma start_inv: "run_inv e (start e)"
proof -
  have "all_uploading e (the_job (start e))"
    by (simp add: all_uploading_def start_eq run_eq job_after_def init_def fold_update_map_of)
  moreover have "unfinished (the_job (start e))"
    by (simp add: unfinished_def start_fresh)
  moreover have "printer_metadata (the_job (start e)) = findContainerStacksMetadata e"
    by (simp add: start_eq run_eq job_after_def)
  moreover have "http (the_job (start e)) = [upload_request e]"
    by (simp add: start_http upload_request_def)
  ultimately show ?thesis
    by (simp add: run_inv_def requesting_def start_fresh)
qed

lemma requesting_step:
  assumes "requesting e w" and "unfinished (the_job w)"
    and "printer_metadata (the_job w) = findContainerStacksMetadata e"
    and "deliver e ev w = Some w'"
  shows "run_inv e w'"
proof -
  obtain i reply error where ev: "ev = Resolve i reply error" by (cases ev)
  let ?s = "the_job w"
  from assms(1) have h: "http ?s = [upload_request e]" and a: "answered w = []"
    and t: "all_uploading e ?s"
    by (simp_all add: requesting_def)
  note d = deliver_eq [OF assms(4) [unfolded ev]]
  from d(1) h have i: "i = 0" by simp
  show ?thesis
  proof (cases "error = None")
    case False
    with d(3) i h have w': "w' = settle 0 (onError reply error ?s) w"
      by (simp add: upload_request_def)
    have "http (the_job w') = http ?s"
      by (simp add: w' settle_job onError_def failed_after)
    moreover have "answered w' = [0]" by (simp add: w' settle_answered a)
    ultimately have "nothing_outstanding w'" by (simp add: nothing_outstanding_def h)
    then show ?thesis by (simp add: run_inv_def)
  next
    case True
    let ?out = "onUploadRequestCompleted reply error ?s"
    from True d(3) i h have w': "w' = settle 0 ?out w"
      by (simp add: upload_request_def)
    have ans: "answered w' = [0]" by (simp add: w' settle_answered a)
    from onUploadRequestCompleted_cases [of reply error ?s]
    consider (fail) msg where "?out = failed (UploadMaterialsError msg) ?s"
      | (raise) x m where "?out = Inl (x, ?s\<lparr>archive_remote_id := Some m\<rparr>)"
      | (ok) u d m where "?out = Inr (?s\<lparr>archive_remote_id := Some m,
                http := http ?s @ [Put u (FileData d) OnUploadCompleted OnError]\<rparr>)"
      by blast
    then show ?thesis
    proof cases
      case fail
      then have "http (the_job w') = http ?s"
        by (simp add: w' settle_job failed_after)
      with ans have "nothing_outstanding w'" by (simp add: nothing_outstanding_def h)
      then show ?thesis by (simp add: run_inv_def)
    next
      case raise
      then have "http (the_job w') = http ?s"
        by (simp add: w' settle_job job_after_def)
      with ans have "nothing_outstanding w'" by (simp add: nothing_outstanding_def h)
      then show ?thesis by (simp add: run_inv_def)
    next
      case ok
      then have j: "the_job w' = ?s\<lparr>archive_remote_id := Some m,
                http := http ?s @ [Put u (FileData d) OnUploadCompleted OnError]\<rparr>"
        by (simp add: w' settle_job job_after_def)
      have "uploading e w'"
        using t by (simp add: uploading_def j h ans all_uploading_def)
      moreover have "unfinished (the_job w')"
        using assms(2) by (simp add: unfinished_def j)
      moreover have "printer_metadata (the_job w') = findContainerStacksMetadata e"
        using assms(3) by (simp add: j)
      ultimately show ?thesis by (simp add: run_inv_def)
    qed
  qed
qed


lemma uploading_step:
  assumes "uploading e w" and "unfinished (the_job w)"
    and "printer_metadata (the_job w) = findContainerStacksMetadata e"
    and "deliver e ev w = Some w'"
  shows "run_inv e w'"
proof -
  obtain i reply error where ev: "ev = Resolve i reply error" by (cases ev)
  let ?s = "the_job w"
  from assms(1) obtain u d where
    h: "http ?s = [upload_request e, Put u d OnUploadCompleted OnError]"
    and a: "set (answered w) = {0}" and t: "all_uploading e ?s"
    by (auto simp: uploading_def)
  note dl = deliver_eq [OF assms(4) [unfolded ev]]
  from dl(1,2) h a have i: "i = 1" by (cases i) auto
  have ans: "set (answered w') = {0, 1}"
    using a by (auto simp: dl(3) settle_answered i)
  show ?thesis
  proof (cases "error = None")
    case False
    with dl(3) i h have w': "w' = settle 1 (onError reply error ?s) w"
      by simp
    have "http (the_job w') = http ?s"
      by (simp add: w' settle_job onError_def failed_after)
    with ans have "nothing_outstanding w'"
      by (auto simp: nothing_outstanding_def h less_Suc_eq)
    then show ?thesis by (simp add: run_inv_def)
  next
    case True
    with dl(3) i h have w': "w' = settle 1 (onUploadCompleted e reply error ?s) w"
      by simp
    have j: "the_job w' = ?s\<lparr>http := http ?s @
        map (confirm_request e) (findContainerStacksMetadata e)\<rparr>"
      by (simp add: w' settle_job onUploadCompleted_eq job_after_def assms(3)
          confirm_request_def)
    have "confirming e w'"
      using t ans by (simp add: confirming_def j h all_uploading_def)
    moreover have "unfinished (the_job w')"
      using assms(2) by (simp add: unfinished_def j)
    moreover have "printer_metadata (the_job w') = findContainerStacksMetadata e"
      using assms(3) by (simp add: j)
    ultimately show ?thesis by (simp add: run_inv_def)
  qed
qed

section \<open>Fatal failures in a run\<close>

lemma run_inv_upload_inv:
  assumes "run_inv e w"
  shows "upload_inv e w"
proof -
  from assms consider "nothing_outstanding w"
    | "unfinished (the_job w)" "printer_metadata (the_job w) = findContainerStacksMetadata e"
      "requesting e w \<or> uploading e w"
    | "confirming e w"
    by (auto simp: run_inv_def)
  then show ?thesis
  proof cases
    case 1
    then show ?thesis by (simp add: upload_inv_def uploads_answered_def nothing_outstanding_def)
  next
    case 2
    then show ?thesis by (simp add: upload_inv_def)
  next
    case 3
    then obtain p2 where
      h: "http (the_job w) = upload_request e # p2 # map (confirm_request e) (findContainerStacksMetadata e)"
      and a0: "0 \<in> set (answered w)" and a1: "1 \<in> set (answered w)"
      by (auto simp: confirming_def)
    have "\<exists>url printer_id. http (the_job w) ! i =
           Get url (OnUploadConfirmed printer_id) (OnUploadConfirmed printer_id)"
      if "i < length (http (the_job w))" "i \<notin> set (answered w)" for i
    proof -
      from that(2) a0 a1 have "i \<noteq> 0" "i \<noteq> 1" by (metis, metis)
      then obtain k where i: "i = k + 2"
        by (metis add_2_eq_Suc' not0_implies_Suc One_nat_def)
      with that(1) h show ?thesis by (simp add: confirm_request_def)
    qed
    then show ?thesis by (simp add: upload_inv_def uploads_answered_def)
  qed
qed


lemma deliver_upload_inv:
  assumes "upload_inv e w" and "deliver e ev w = Some w'"
  shows "upload_inv e w'"
proof (cases "uploads_answered w")
  case True
  obtain i reply error where ev: "ev = Resolve i reply error" by (cases ev)
  note dl = deliver_eq [OF assms(2) [unfolded ev]]
  from True dl(1,2) obtain url printer_id where
    g: "http (the_job w) ! i = Get url (OnUploadConfirmed printer_id) (OnUploadConfirmed printer_id)"
    by (auto simp: uploads_answered_def)
  with dl(3) have w': "w' = settle i (Inl (TypeError, the_job w)) w"
    by simp
  have "http (the_job w') = http (the_job w)"
    by (simp add: w' settle_job job_after_def)
  moreover have "answered w' = i # answered w" by (simp add: w' settle_answered)
  ultimately have "uploads_answered w'"
    using True by (simp add: uploads_answered_def)
  then show ?thesis by (simp add: upload_inv_def)
next
  case False
  with assms(1) have "unfinished (the_job w)"
    "printer_metadata (the_job w) = findContainerStacksMetadata e"
    "requesting e w \<or> uploading e w"
    by (simp_all add: upload_inv_def)
  with assms(2) have "run_inv e w'"
    using requesting_step uploading_step by blast
  then show ?thesis by (rule run_inv_upload_inv)
qed

lemma exec_upload_inv:
  assumes "exec e evs w = Some w'" and "upload_inv e w"
  shows "upload_inv e w'"
  using assms
proof (induction evs arbitrary: w)
  case Nil
  then show ?case by simp
next
  case (Cons ev evs)
  then obtain w1 where d: "deliver e ev w = Some w1" and x: "exec e evs w1 = Some w'"
    by (auto split: option.splits)
  from deliver_upload_inv [OF Cons.prems(2) d] Cons.IH [OF x] show ?case by simp
qed

text \<open>
  C7. In every run, when either upload request resolves with a transport error, or the
  upload request resolves with a malformed response (unparseable, or lacking a required
  field), the job at once emits progress 1.0 and then a completion notification, with the
  result failed and an error with a non-empty message. That completion notification is
  the only one of the run: none was emitted before, and no request is outstanding
  afterwards, so that no callback can follow.
\<close>

theorem fatal_failure_finalizes_job:
  assumes "exec e evs (start e) = Some w"
      and "deliver e (Resolve i reply error) w = Some w'"
      and "\<not> is_confirmation (http (the_job w) ! i)"
      and "error \<noteq> None \<or> (i = 0 \<and> malformed reply)"
  shows "job_result (the_job w') = Some FAILED
    \<and> (\<exists>msg. msg \<noteq> []
          \<and> job_error (the_job w') = Some (UploadMaterialsError msg)
          \<and> completions (emitted (the_job w')) = [(Some FAILED, Some (UploadMaterialsError msg))]
          \<and> last (emitted (the_job w')) =
               UploadCompleted (Some FAILED) (Some (UploadMaterialsError msg)))
    \<and> progress_values (emitted (the_job w')) = progress_values (emitted (the_job w)) @ [1]
    \<and> http (the_job w') = http (the_job w)
    \<and> uncaught w' = uncaught w
    \<and> (\<forall>ev. deliver e ev w' = None)"
proof -
  let ?s = "the_job w"
  have inv: "upload_inv e w"
    by (rule exec_upload_inv [OF assms(1) run_inv_upload_inv [OF start_inv]])
  note dl = deliver_eq [OF assms(2)]
  from dl(1,2) assms(3) have "\<not> uploads_answered w"
    by (auto simp: uploads_answered_def)
  with inv have fresh: "unfinished ?s" and ph: "requesting e w \<or> uploading e w"
    by (simp_all add: upload_inv_def)
  have cb: "fatal (if error = None then callback_of (http ?s ! i)
                   else error_callback_of (http ?s ! i)) reply
    \<and> (\<forall>j < length (http ?s). j \<noteq> i \<longrightarrow> j \<in> set (answered w))"
    using ph
  proof
    assume "requesting e w"
    then have h: "http ?s = [upload_request e]" and a: "answered w = []"
      by (simp_all add: requesting_def)
    with dl(1) have "i = 0" by simp
    with h assms(4) show ?thesis
      by (auto simp: fatal_def upload_request_def)
  next
    assume "uploading e w"
    then obtain u d where h: "http ?s = [upload_request e, Put u d OnUploadCompleted OnError]"
      and a: "set (answered w) = {0}"
      by (auto simp: uploading_def)
    with dl(1,2) have i: "i = 1" by (cases i) auto
    with h a assms(4) show ?thesis
      by (auto simp: fatal_def less_Suc_eq)
  qed
  then obtain msg where ne: "msg \<noteq> []" and
    out: "invoke e (if error = None then callback_of (http ?s ! i)
                   else error_callback_of (http ?s ! i)) reply error ?s
          = failed (UploadMaterialsError msg) ?s"
    using fatal_calls_failed by blast
  obtain s' T where s': "failed (UploadMaterialsError msg) ?s = Inr s'"
    and res: "job_result s' = Some FAILED"
    and er: "job_error s' = Some (UploadMaterialsError msg)"
    and req: "http s' = http ?s"
    and em: "emitted s' = emitted ?s @ [UploadProgressChanged 1 T,
        UploadCompleted (Some FAILED) (Some (UploadMaterialsError msg))]"
    by (simp add: failed_eq)
  from dl(3) out s' have w': "w' = w\<lparr>the_job := s', answered := i # answered w\<rparr>"
    by (simp add: settle_def)
  from fresh have co: "completions (emitted ?s) = []" by (simp add: unfinished_def)
  have "deliver e ev w' = None" for ev
  proof (cases ev)
    case (Resolve j r x)
    from cb have "j < length (http ?s) \<Longrightarrow> j \<in> set (i # answered w)" by auto
    then show ?thesis by (auto simp: Resolve w' req)
  qed
  moreover have "completions (emitted (the_job w')) = [(Some FAILED, Some (UploadMaterialsError msg))]"
    by (simp add: w' em completions_append co)
  moreover have "last (emitted (the_job w')) =
               UploadCompleted (Some FAILED) (Some (UploadMaterialsError msg))"
    by (simp add: w' em)
  moreover have "progress_values (emitted (the_job w')) = progress_values (emitted ?s) @ [1]"
    by (simp add: w' em progress_values_append)
  moreover have "job_result (the_job w') = Some FAILED"
    "job_error (the_job w') = Some (UploadMaterialsError msg)"
    "http (the_job w') = http ?s" "uncaught w' = uncaught w"
    by (simp_all add: w' res er req)
  ultimately show ?thesis using ne by blast
qed

lemma uploading1_reached:
  "exec env1 [Resolve 0 good_reply None] (start env1) = Some uploading1"
  by (simp add: uploading1_def env1_def eval_defs)

theorem fatal_failure_finalizes_job_witness:
  "exec env1 [Resolve 0 good_reply None] (start env1) = Some uploading1
   \<and> \<not> is_confirmation (http (the_job uploading1) ! 1)
   \<and> (\<exists>w'. deliver env1 (Resolve 1 None (Some 1)) uploading1 = Some w'
        \<and> job_result (the_job w') = Some FAILED
        \<and> (\<exists>msg. msg \<noteq> []
              \<and> job_error (the_job w') = Some (UploadMaterialsError msg)
              \<and> completions (emitted (the_job w')) =
                   [(Some FAILED, Some (UploadMaterialsError msg))])
        \<and> progress_values (emitted (the_job w')) = [0.4, 0.8, 1]
        \<and> (\<forall>ev. deliver env1 ev w' = None))"
proof -
  have n: "\<not> is_confirmation (http (the_job uploading1) ! 1)"
    by (simp add: uploading1_def env1_def eval_defs)
  have x: "(Some (1::nat) :: NetworkError option) \<noteq> None \<or> ((1::nat) = 0 \<and> malformed None)"
    by simp
  have p: "progress_values (emitted (the_job uploading1)) = [0.4, 0.8]"
    by (simp add: uploading1_def env1_def eval_defs)
  obtain w' where d: "deliver env1 (Resolve 1 None (Some 1)) uploading1 = Some w'"
    by (simp add: uploading1_def env1_def eval_defs)
  from fatal_failure_finalizes_job [OF uploading1_reached d n x] p
  have "job_result (the_job w') = Some FAILED
        \<and> (\<exists>msg. msg \<noteq> []
              \<and> job_error (the_job w') = Some (UploadMaterialsError msg)
              \<and> completions (emitted (the_job w')) =
                   [(Some FAILED, Some (UploadMaterialsError msg))])
        \<and> progress_values (emitted (the_job w')) = [0.4, 0.8, 1]
        \<and> (\<forall>ev. deliver env1 ev w' = None)"
    by auto
  with uploading1_reached n d show ?thesis by blast
qed

section \<open>The status table after a fatal failure\<close>

lemma fold_update_distinct:
  "distinct (map fst al) \<Longrightarrow> distinct (map fst (fold (\<lambda>k. AList.update k v) ks al))"
  by (induction ks arbitrary: al) (simp_all add: distinct_update)

lemma invoke_distinct:
  assumes "distinct (map fst (printer_sync_status s))"
  shows "distinct (map fst (printer_sync_status (job_after (invoke e cb reply err s))))"
proof (cases cb)
  case OnUploadRequestCompleted
  from onUploadRequestCompleted_cases [of reply err s] assms show ?thesis
    by (auto simp: OnUploadRequestCompleted failed_eq job_after_def fold_update_distinct)
next
  case OnUploadCompleted
  with assms show ?thesis by (simp add: onUploadCompleted_eq job_after_def)
next
  case (OnUploadConfirmed printer_id)
  with assms show ?thesis by (simp add: job_after_def)
next
  case OnError
  with assms show ?thesis
    by (simp add: onError_def failed_eq job_after_def fold_update_distinct)
qed

lemma exec_distinct:
  assumes "exec e evs w = Some w'" and "distinct (map fst (printer_sync_status (the_job w)))"
  shows "distinct (map fst (printer_sync_status (the_job w')))"
  using assms
proof (induction evs arbitrary: w)
  case Nil
  then show ?case by simp
next
  case (Cons ev evs)
  then obtain w1 where d: "deliver e ev w = Some w1" and x: "exec e evs w1 = Some w'"
    by (auto split: option.splits)
  obtain i reply error where ev: "ev = Resolve i reply error" by (cases ev)
  from deliver_eq(3) [OF d [unfolded ev]] Cons.prems(2)
  have "distinct (map fst (printer_sync_status (the_job w1)))"
    by (simp add: settle_job invoke_distinct)
  with Cons.IH [OF x] show ?case by simp
qed

lemma start_distinct: "distinct (map fst (printer_sync_status (the_job (start e))))"
  by (simp add: start_eq run_eq job_after_def init_def fold_update_distinct)

text \<open>
  C10. In every run, on a fatal failure of phase 1 or 2 (a transport error of either upload
  request, or a malformed response to the upload request) the general-failure helper
  leaves every printer of the status table failed: the table keeps its keys, every value
  is \<open>''failed''\<close>, and every printer that the registry found is among them. No
  confirmation request has been sent to any of them. The completion notification is the
  last signal, emitted after the progress notification that already carries the
  overwritten table.
\<close>

theorem fatal_failure_marks_every_printer_failed:
  assumes "exec e evs (start e) = Some w"
      and "deliver e (Resolve i reply error) w = Some w'"
      and "\<not> is_confirmation (http (the_job w) ! i)"
      and "error \<noteq> None \<or> (i = 0 \<and> malformed reply)"
  shows "(\<forall>c \<in> set (findContainerStacksMetadata e).
            map_of (printer_sync_status (the_job w')) (host_guid c) = Some ''failed'')
    \<and> (\<forall>status \<in> set (map snd (printer_sync_status (the_job w'))). status = ''failed'')
    \<and> map fst (printer_sync_status (the_job w')) = map fst (printer_sync_status (the_job w))
    \<and> filter is_confirmation (http (the_job w')) = []
    \<and> emitted (the_job w') = emitted (the_job w) @
          [UploadProgressChanged 1 (printer_sync_status (the_job w')),
           UploadCompleted (job_result (the_job w')) (job_error (the_job w'))]"
proof -
  let ?s = "the_job w"
  let ?T = "fold (\<lambda>k. AList.update k ''failed'') (map fst (printer_sync_status ?s))
      (printer_sync_status ?s)"
  have inv: "upload_inv e w"
    by (rule exec_upload_inv [OF assms(1) run_inv_upload_inv [OF start_inv]])
  have dist: "distinct (map fst (printer_sync_status ?s))"
    by (rule exec_distinct [OF assms(1) start_distinct])
  note dl = deliver_eq [OF assms(2)]
  from dl(1,2) assms(3) have "\<not> uploads_answered w"
    by (auto simp: uploads_answered_def)
  with inv have ph: "requesting e w \<or> uploading e w"
    by (simp add: upload_inv_def)
  have cb: "fatal (if error = None then callback_of (http ?s ! i)
                   else error_callback_of (http ?s ! i)) reply
    \<and> filter is_confirmation (http ?s) = [] \<and> all_uploading e ?s"
    using ph
  proof
    assume "requesting e w"
    then have h: "http ?s = [upload_request e]" and t: "all_uploading e ?s"
      by (simp_all add: requesting_def)
    with dl(1) have "i = 0" by simp
    with h t assms(4) show ?thesis
      by (auto simp: fatal_def upload_request_def)
  next
    assume "uploading e w"
    then obtain u d where h: "http ?s = [upload_request e, Put u d OnUploadCompleted OnError]"
      and a: "set (answered w) = {0}" and t: "all_uploading e ?s"
      by (auto simp: uploading_def)
    with dl(1,2) have i: "i = 1" by (cases i) auto
    with h t assms(4) show ?thesis
      by (auto simp: fatal_def upload_request_def)
  qed
  then obtain msg where
    out: "invoke e (if error = None then callback_of (http ?s ! i)
                   else error_callback_of (http ?s ! i)) reply error ?s
          = failed (UploadMaterialsError msg) ?s"
    using fatal_calls_failed by blast
  obtain s' where s': "failed (UploadMaterialsError msg) ?s = Inr s'"
    and tbl: "printer_sync_status s' = ?T"
    and req: "http s' = http ?s"
    and em: "emitted s' = emitted ?s @ [UploadProgressChanged 1 ?T,
        UploadCompleted (job_result s') (job_error s')]"
    by (simp add: failed_eq)
  from dl(3) out s' have job: "the_job w' = s'"
    by (simp add: settle_job job_after_def)
  have keys: "map fst ?T = map fst (printer_sync_status ?s)"
    by (rule fold_update_keys) simp
  have vals: "\<forall>status \<in> set (map snd ?T). status = ''failed''"
    by (rule fold_update_all_values [OF dist])
  have "map_of ?T (host_guid c) = Some ''failed''" if "c \<in> set (findContainerStacksMetadata e)" for c
  proof -
    from cb that have "map_of (printer_sync_status ?s) (host_guid c) = Some ''uploading''"
      by (simp add: all_uploading_def)
    then have "host_guid c \<in> set (map fst (printer_sync_status ?s))"
      by (metis map_of_eq_None_iff option.distinct(1) set_map)
    then show ?thesis by (simp add: fold_update_map_of)
  qed
  with keys vals cb show ?thesis
    by (simp add: job tbl req em)
qed

theorem fatal_failure_marks_every_printer_failed_witness:
  "exec env2 [] (start env2) = Some (start env2)
   \<and> \<not> is_confirmation (http (the_job (start env2)) ! 0)
   \<and> (\<exists>w'. deliver env2 (Resolve 0 None (Some 1)) (start env2) = Some w'
        \<and> printer_sync_status (the_job w') = [(''p1'', ''failed''), (''p2'', ''failed'')]
        \<and> filter is_confirmation (http (the_job w')) = [])"
proof -
  have x: "exec env2 [] (start env2) = Some (start env2)" by simp
  have n: "\<not> is_confirmation (http (the_job (start env2)) ! 0)"
    by (simp add: start_http)
  have f: "(Some (1::nat) :: NetworkError option) \<noteq> None \<or> ((0::nat) = 0 \<and> malformed None)"
    by simp
  have t: "map fst (printer_sync_status (the_job (start env2))) = [''p1'', ''p2'']"
    by (simp add: env2_def eval_defs)
  obtain w' where d: "deliver env2 (Resolve 0 None (Some 1)) (start env2) = Some w'"
    by (simp add: start_http start_fresh)
  note c = fatal_failure_marks_every_printer_failed [OF x d n f]
  from c t have k: "map fst (printer_sync_status (the_job w')) = [''p1'', ''p2'']"
    by simp
  from c have v: "\<forall>status \<in> set (map snd (printer_sync_status (the_job w'))). status = ''failed''"
    by blast
  from k obtain a b where ab: "printer_sync_status (the_job w') = [(''p1'', a), (''p2'', b)]"
    by (auto simp: map_eq_Cons_conv)
  with v have "printer_sync_status (the_job w') = [(''p1'', ''failed''), (''p2'', ''failed'')]"
    by simp
  moreover from c have "filter is_confirmation (http (the_job w')) = []" by blast
  ultimately show ?thesis using x n d by blast
qed

section \<open>The callbacks of a confirmation request\<close>

lemma confirming_twin_reached:
  "exec env_twin [Resolve 0 good_reply None, Resolve 1 None None] (start env_twin)
     = Some confirming_twin"
  by (simp add: confirming_twin_def env_twin_def eval_defs)

lemma twin_requests:
  "map callback_of (http (the_job confirming_twin)) =
     [OnUploadRequestCompleted, OnUploadCompleted, OnUploadConfirmed ''p1'', OnUploadConfirmed ''p1'']"
  by (simp add: confirming_twin_def env_twin_def eval_defs)

text \<open>
  C8. Two printers, both confirmation requests outstanding; the confirmation of the first
  resolves without error. Calling the request's callback raises \<^verbatim>\<open>TypeError\<close>: the status
  of the printer is not set to \<open>''success''\<close> but stays \<open>''uploading''\<close>, no progress is
  emitted and no result is set.
\<close>

theorem confirmation_callback_raises:
  "map_option (\<lambda>w. (printer_sync_status (the_job w), job_result (the_job w),
                     progress_values (emitted (the_job w)), uncaught w, answered w))
     (deliver env2 (Resolve 2 None None) confirming2)
   = Some ([(''p1'', ''uploading''), (''p2'', ''uploading'')], None, [0.4, 0.8],
           [TypeError], [2, 1, 0])"
  by (simp add: confirming2_def env2_def eval_defs)

section \<open>The confirmation handler, called directly\<close>

text \<open>
  C1. One printer, every request resolving without error. In the run the callback of the
  confirmation raises \<^verbatim>\<open>TypeError\<close>: the printer stays uploading, the last progress value
  is 0.8, no result is set and no completion notification is emitted. The handler
  \<^verbatim>\<open>onUploadConfirmed\<close> itself, called for that printer on the job of that run, emits
  progress 1.8 and then raises \<^verbatim>\<open>AttributeError\<close> on \<^verbatim>\<open>Result.SUCCESS\<close>: the result stays
  unset and no completion notification is emitted.
\<close>

theorem all_confirmations_succeed_single_printer:
  "map_option (\<lambda>w. (progress_values (emitted (the_job w)), completions (emitted (the_job w)),
                     job_result (the_job w), printer_sync_status (the_job w), uncaught w))
     (exec env1 [Resolve 0 good_reply None, Resolve 1 None None, Resolve 2 None None] (start env1))
   = Some ([0.4, 0.8], [], None, [(''p1'', ''uploading'')], [TypeError])
   \<and> raised (onUploadConfirmed ''p1'' None None (the_job confirming1))
       = Some (AttributeError ''SUCCESS'')
   \<and> progress_values (emitted (job_after
         (onUploadConfirmed ''p1'' None None (the_job confirming1)))) = [0.4, 0.8, 1.8]
   \<and> job_result (job_after (onUploadConfirmed ''p1'' None None (the_job confirming1))) = None
   \<and> completions (emitted (job_after
         (onUploadConfirmed ''p1'' None None (the_job confirming1)))) = []"
  by (simp add: raised_def confirming1_def env1_def eval_defs progress_values_append
      completions_append)

text \<open>
  C2. Two printers, both uploading. \<^verbatim>\<open>onUploadConfirmed\<close>, called for the first of them
  without an error, emits \<open>0.8 + 1 / 2\<close>: the number of resolved printers over the number
  of printers, added to 0.8 without the factor 0.2. That is not \<open>0.8 + 0.2 * (1 / 2)\<close>. In
  the run itself the callback raises \<^verbatim>\<open>TypeError\<close> and no progress is emitted at all.
\<close>

theorem first_confirmation_progress:
  "progress_values (emitted (job_after
      (onUploadConfirmed ''p1'' None None (the_job confirming2)))) = [0.4, 0.8, 0.8 + 1 / 2]
   \<and> printer_sync_status (job_after (onUploadConfirmed ''p1'' None None (the_job confirming2)))
       = [(''p1'', ''success''), (''p2'', ''uploading'')]
   \<and> (0.8 + 1 / 2 :: real) \<noteq> 0.8 + 0.2 * (1 / 2)
   \<and> map_option (\<lambda>w. (progress_values (emitted (the_job w)), uncaught w))
         (deliver env2 (Resolve 2 None None) confirming2) = Some ([0.4, 0.8], [TypeError])"
  by (simp add: confirming2_def env2_def eval_defs progress_values_append)

text \<open>
  C3. One printer. \<^verbatim>\<open>onUploadConfirmed\<close>, called for it with an error, leaves the signals
  progress 0.4, progress 0.8, progress 1.8 and the completion notification, in this
  order: the last progress value before completion is 1.8, outside \<open>[0, 1]\<close>. In the run
  itself the callback raises \<^verbatim>\<open>TypeError\<close>: the progress stops at 0.8 and no completion
  notification is emitted.
\<close>

theorem failed_confirmation_progress_exceeds_one:
  "emitted (job_after (onUploadConfirmed ''p1'' None (Some 1) (the_job confirming1)))
   = [UploadProgressChanged 0.4 [(''p1'', ''uploading'')],
      UploadProgressChanged 0.8 [(''p1'', ''uploading'')],
      UploadProgressChanged 1.8 [(''p1'', ''failed'')],
      UploadCompleted (Some FAILED) (Some (UploadMaterialsError
        ''Failed to connect to Digital Factory to sync materials with some of the printers.''))]
   \<and> map_option (\<lambda>w. (emitted (the_job w), uncaught w))
        (exec env1 [Resolve 0 good_reply None, Resolve 1 None None, Resolve 2 None (Some 1)]
           (start env1))
      = Some ([UploadProgressChanged 0.4 [(''p1'', ''uploading'')],
               UploadProgressChanged 0.8 [(''p1'', ''uploading'')]], [TypeError])"
  by (simp add: confirming1_def env1_def eval_defs)

section \<open>Finalization\<close>




end
